theory Spec2Isabelle
  imports Complex_Main "HOL-Library.Product_Lexorder"
begin

section \<open>The REST client (lib/api)\<close>

text \<open>
  The client functions are asynchronous and talk to a backend over \<open>fetch\<close>.  Each one is
  modelled in two parts: the HTTP request it builds, a value of the record \<open>http_request\<close>,
  and what it does with the outcome.  The network and the backend are a parameter
  \<open>fetch\<close>, a function from the request to the outcome of \<open>await fetch(...)\<close> (the promise
  rejects, or there is a response), so that a property holds for every backend.  The browser
  globals the code reads (\<open>process.env\<close>, \<open>window\<close>, \<open>localStorage\<close>) are the fields of
  the record \<open>env\<close>, passed explicitly.

  A TypeScript \<open>number\<close> is modelled as a real number, a \<open>string\<close> as a HOL string, an
  optional argument as an \<open>option\<close> (\<open>None\<close> is \<open>undefined\<close>).  The argument of
  \<open>JSON.stringify\<close> is kept as the value of type \<open>json\<close> that is serialised.
\<close>

datatype json =
    JNull
  | JBool bool
  | JNum real
  | JStr string
  | JArr "json list"
  | JObj "(string \<times> json) list"

datatype http_method = GET | POST | PUT

record http_request =
  url :: string
  http_method :: http_method
  headers :: "(string \<times> string) list"
  body :: "json option"

record env =
  NEXT_PUBLIC_API_URL :: "string option"
  window_defined :: bool
  localStorage :: "string \<rightharpoonup> string"

text \<open>A thrown value: an \<open>Error\<close> with its message, or anything else.\<close>

datatype thrown = Error string | NonError

text \<open>\<open>const API_BASE = process.env.NEXT_PUBLIC_API_URL || "http://localhost:8000"\<close>:
  an unset or empty variable is falsy.\<close>

definition API_BASE :: "env \<Rightarrow> string" where
  "API_BASE e =
     (case NEXT_PUBLIC_API_URL e of
        None \<Rightarrow> ''http://localhost:8000''
      | Some u \<Rightarrow> if u = [] then ''http://localhost:8000'' else u)"

text \<open>\<open>authHeaders\<close>: no header outside a browser, none when \<open>getItem\<close> gives \<open>null\<close>
  or the empty string (both falsy), the bearer header otherwise.\<close>

definition authHeaders :: "env \<Rightarrow> (string \<times> string) list" where
  "authHeaders e =
     (if \<not> window_defined e then []
      else case localStorage e ''cortex_api_key'' of
             None \<Rightarrow> []
           | Some key \<Rightarrow> if key = [] then [] else [(''Authorization'', ''Bearer '' @ key)])"

text \<open>The header object \<open>{ "Content-Type": "application/json", ...authHeaders() }\<close>.\<close>

definition json_auth_headers :: "env \<Rightarrow> (string \<times> string) list" where
  "json_auth_headers e = (''Content-Type'', ''application/json'') # authHeaders e"

subsection \<open>The requests of the team API\<close>

definition registerUser_request :: "env \<Rightarrow> string \<Rightarrow> string option \<Rightarrow> http_request" where
  "registerUser_request e name email =
     \<lparr> url = API_BASE e @ ''/teams/users'',
       http_method = POST,
       headers = [(''Content-Type'', ''application/json'')],
       body = Some (JObj [(''name'', JStr name),
                          (''email'', JStr (case email of None \<Rightarrow> [] | Some m \<Rightarrow> m))]) \<rparr>"

definition createTeam_request :: "env \<Rightarrow> string \<Rightarrow> http_request" where
  "createTeam_request e name =
     \<lparr> url = API_BASE e @ ''/teams'',
       http_method = POST,
       headers = json_auth_headers e,
       body = Some (JObj [(''name'', JStr name)]) \<rparr>"

definition joinTeam_request :: "env \<Rightarrow> string \<Rightarrow> http_request" where
  "joinTeam_request e inviteCode =
     \<lparr> url = API_BASE e @ ''/teams/join-with-auth'',
       http_method = POST,
       headers = json_auth_headers e,
       body = Some (JObj [(''invite_code'', JStr inviteCode)]) \<rparr>"

definition getMyTeams_request :: "env \<Rightarrow> http_request" where
  "getMyTeams_request e =
     \<lparr> url = API_BASE e @ ''/teams/me'',
       http_method = GET,
       headers = authHeaders e,
       body = None \<rparr>"

definition getTeamMembers_request :: "env \<Rightarrow> string \<Rightarrow> http_request" where
  "getTeamMembers_request e teamId =
     \<lparr> url = API_BASE e @ ''/teams/'' @ teamId @ ''/members'',
       http_method = GET,
       headers = authHeaders e,
       body = None \<rparr>"

definition updatePokeKey_request :: "env \<Rightarrow> string \<Rightarrow> string \<Rightarrow> http_request" where
  "updatePokeKey_request e teamId pokeApiKey =
     \<lparr> url = API_BASE e @ ''/teams/'' @ teamId @ ''/members/me/poke-key'',
       http_method = PUT,
       headers = json_auth_headers e,
       body = Some (JObj [(''poke_api_key'', JStr pokeApiKey)]) \<rparr>"

text \<open>A default parameter \<open>durationMinutes: number = 30\<close> takes its default when the
  argument is omitted (\<open>undefined\<close>).\<close>

definition default_duration :: "real option \<Rightarrow> real" where
  "default_duration d = (case d of None \<Rightarrow> 30 | Some m \<Rightarrow> m)"

definition findAvailability_request ::
  "env \<Rightarrow> string \<Rightarrow> string \<Rightarrow> string \<Rightarrow> real option \<Rightarrow> http_request" where
  "findAvailability_request e teamId startDate endDate durationMinutes =
     \<lparr> url = API_BASE e @ ''/teams/'' @ teamId @ ''/availability/find'',
       http_method = POST,
       headers = json_auth_headers e,
       body = Some (JObj [(''start_date'', JStr startDate),
                          (''end_date'', JStr endDate),
                          (''duration_minutes'', JNum (default_duration durationMinutes))]) \<rparr>"

definition bookMeeting_request ::
  "env \<Rightarrow> string \<Rightarrow> string \<Rightarrow> string \<Rightarrow> real option \<Rightarrow> http_request" where
  "bookMeeting_request e teamId title startTime durationMinutes =
     \<lparr> url = API_BASE e @ ''/teams/'' @ teamId @ ''/book'',
       http_method = POST,
       headers = json_auth_headers e,
       body = Some (JObj [(''title'', JStr title),
                          (''start_time'', JStr startTime),
                          (''duration_minutes'', JNum (default_duration durationMinutes))]) \<rparr>"

subsection \<open>Responses\<close>

text \<open>
  \<open>await fetch(...)\<close> either rejects with a thrown value (\<open>Inl\<close>: no connection, an
  aborted request) or gives a response (\<open>Inr\<close>).  A response is its \<open>ok\<close> flag and the
  outcome of \<open>res.json()\<close>, which rejects when the body is not JSON (\<open>Inl\<close>) and otherwise
  gives the parsed value: \<open>None\<close> for \<open>null\<close>, \<open>Some\<close> of its fields for anything else.
  The fields of a parsed value are optional: the type annotation of the source promises
  them, the run time does not, and \<open>CalendarView\<close> guards each with \<open>||\<close>.
\<close>

record api_slot =
  slot_start :: string
  slot_end :: string
  display :: string

record availability_result =
  slots :: "api_slot list option"
  message :: "string option"

record booking_result =
  booking_message :: "string option"

record 'a http_response =
  ok :: bool
  json :: "thrown + 'a option"

definition findAvailability ::
  "(http_request \<Rightarrow> thrown + availability_result http_response) \<Rightarrow> env \<Rightarrow>
     string \<Rightarrow> string \<Rightarrow> string \<Rightarrow> real option \<Rightarrow> thrown + availability_result option" where
  "findAvailability fetch e teamId startDate endDate durationMinutes =
     (case fetch (findAvailability_request e teamId startDate endDate durationMinutes) of
        Inl rejection \<Rightarrow> Inl rejection
      | Inr res \<Rightarrow>
          if \<not> ok res then Inl (Error ''Failed to find availability'')
          else json res)"

definition bookMeeting ::
  "(http_request \<Rightarrow> thrown + booking_result http_response) \<Rightarrow> env \<Rightarrow>
     string \<Rightarrow> string \<Rightarrow> string \<Rightarrow> real option \<Rightarrow> thrown + booking_result option" where
  "bookMeeting fetch e teamId title startTime durationMinutes =
     (case fetch (bookMeeting_request e teamId title startTime durationMinutes) of
        Inl rejection \<Rightarrow> Inl rejection
      | Inr res \<Rightarrow>
          if \<not> ok res then Inl (Error ''Failed to book meeting'')
          else json res)"

section \<open>The run-time library: \<open>Date\<close>\<close>

text \<open>
  \<open>getWeekRange\<close> is written against the JavaScript \<open>Date\<close> object.  A \<open>Date\<close> is its time
  value, the milliseconds since 1970-01-01T00:00:00Z, an integer.  The functions below
  follow the definitions of the language standard (\<open>Day\<close>, \<open>DayFromYear\<close>,
  \<open>YearFromTime\<close>, \<open>MonthFromTime\<close>, \<open>DateFromTime\<close>, \<open>WeekDay\<close>, \<open>MakeDay\<close>,
  \<open>LocalTime\<close>, \<open>UTC\<close>).  The time zone of the browser is a parameter, a \<open>zone\<close>: the
  minutes local time is ahead of UTC, as a function of the instant and as a function of
  the local time, since the offset of a zone changes with daylight saving
  (\<open>getTimezoneOffset()\<close> is its negation).  Time values stay within the range of a valid
  \<open>Date\<close>, as those near any real clock do.
\<close>

definition msPerDay :: int where
  "msPerDay = 86400000"

definition Day :: "int \<Rightarrow> int" where
  "Day t = t div msPerDay"

definition TimeWithinDay :: "int \<Rightarrow> int" where
  "TimeWithinDay t = t mod msPerDay"

definition DayFromYear :: "int \<Rightarrow> int" where
  "DayFromYear y =
     365 * (y - 1970) + (y - 1969) div 4 - (y - 1901) div 100 + (y - 1601) div 400"

definition InLeapYear :: "int \<Rightarrow> bool" where
  "InLeapYear y = (y mod 4 = 0 \<and> (y mod 100 \<noteq> 0 \<or> y mod 400 = 0))"

lemma year_step_arith:
  fixes y a a' b b' c c' :: int
  assumes "a \<le> a'" and "b' \<le> b + 1" and "c \<le> c'"
  shows "365 * (y - 1970) + a - b + c < 365 * (y + 1 - 1970) + a' - b' + c'"
  using assms by simp

lemma DayFromYear_step: "DayFromYear y < DayFromYear (y + 1)"
proof -
  have a: "(y - 1969) div 4 \<le> (y + 1 - 1969) div 4"
    by (rule zdiv_mono1) simp_all
  have "(y + 1 - 1901) div 100 \<le> (y - 1901 + 100) div 100"
    by (rule zdiv_mono1) simp_all
  then have b: "(y + 1 - 1901) div 100 \<le> (y - 1901) div 100 + 1"
    by simp
  have c: "(y - 1601) div 400 \<le> (y + 1 - 1601) div 400"
    by (rule zdiv_mono1) simp_all
  show ?thesis
    unfolding DayFromYear_def by (rule year_step_arith [OF a b c])
qed

text \<open>\<open>YearFromTime\<close> is the largest year that starts on or before the day: found from
  an estimate by walking up, then down.\<close>

function year_up :: "int \<Rightarrow> int \<Rightarrow> int" where
  "year_up y d = (if DayFromYear (y + 1) \<le> d then year_up (y + 1) d else y)"
  by pat_completeness auto
termination
proof (relation "measure (\<lambda>(y, d). nat (d - DayFromYear y))")
  show "wf (measure (\<lambda>(y, d). nat (d - DayFromYear y)))"
    by simp
next
  fix y d :: int
  assume "DayFromYear (y + 1) \<le> d"
  with DayFromYear_step [of y]
  show "((y + 1, d), (y, d)) \<in> measure (\<lambda>(y, d). nat (d - DayFromYear y))"
    by simp
qed

function year_down :: "int \<Rightarrow> int \<Rightarrow> int" where
  "year_down y d = (if d < DayFromYear y then year_down (y - 1) d else y)"
  by pat_completeness auto
termination
proof (relation "measure (\<lambda>(y, d). nat (DayFromYear y - d))")
  show "wf (measure (\<lambda>(y, d). nat (DayFromYear y - d)))"
    by simp
next
  fix y d :: int
  assume "d < DayFromYear y"
  with DayFromYear_step [of "y - 1"]
  show "((y - 1, d), (y, d)) \<in> measure (\<lambda>(y, d). nat (DayFromYear y - d))"
    by simp
qed

definition YearFromDay :: "int \<Rightarrow> int" where
  "YearFromDay d = year_down (year_up (1970 + d div 366) d) d"

definition DayWithinYear :: "int \<Rightarrow> int" where
  "DayWithinYear d = d - DayFromYear (YearFromDay d)"

text \<open>The number of days of the year before month \<open>m\<close> (January is 0).\<close>

definition month_start :: "bool \<Rightarrow> int \<Rightarrow> int" where
  "month_start leap m =
     (if m = 0 then 0
      else if m = 1 then 31
      else (if leap then 1 else 0) +
        (if m = 2 then 59 else if m = 3 then 90 else if m = 4 then 120
         else if m = 5 then 151 else if m = 6 then 181 else if m = 7 then 212
         else if m = 8 then 243 else if m = 9 then 273 else if m = 10 then 304
         else 334))"

definition month_of :: "bool \<Rightarrow> int \<Rightarrow> int" where
  "month_of leap dwy =
     (let l = (if leap then 1 else 0) in
      if dwy < 31 then 0
      else if dwy < 59 + l then 1
      else if dwy < 90 + l then 2
      else if dwy < 120 + l then 3
      else if dwy < 151 + l then 4
      else if dwy < 181 + l then 5
      else if dwy < 212 + l then 6
      else if dwy < 243 + l then 7
      else if dwy < 273 + l then 8
      else if dwy < 304 + l then 9
      else if dwy < 334 + l then 10
      else 11)"

definition MonthFromDay :: "int \<Rightarrow> int" where
  "MonthFromDay d = month_of (InLeapYear (YearFromDay d)) (DayWithinYear d)"

definition DateFromDay :: "int \<Rightarrow> int" where
  "DateFromDay d =
     DayWithinYear d - month_start (InLeapYear (YearFromDay d)) (MonthFromDay d) + 1"

text \<open>The day of the week, 0 for Sunday: day 0 of the epoch was a Thursday.\<close>

definition WeekDay :: "int \<Rightarrow> int" where
  "WeekDay d = (d + 4) mod 7"

text \<open>\<open>MakeDay\<close>: the day number of the first of the month, plus the date less one; a
  month outside 0..11 and a date outside the month carry over.\<close>

definition MakeDay :: "int \<Rightarrow> int \<Rightarrow> int \<Rightarrow> int" where
  "MakeDay y m dt =
     (let ym = y + m div 12
      in DayFromYear ym + month_start (InLeapYear ym) (m mod 12) + dt - 1)"

text \<open>A zone: \<open>offset_at z t\<close> is the offset in minutes at the instant \<open>t\<close> (the
  standard's \<open>LocalTZA(t, true)\<close>), \<open>offset_of_local z l\<close> the offset in effect at the local
  time \<open>l\<close> (\<open>LocalTZA(l, false)\<close>).  A zone with no daylight saving has one offset.\<close>

record zone =
  offset_at :: "int \<Rightarrow> int"
  offset_of_local :: "int \<Rightarrow> int"

definition fixed_zone :: "int \<Rightarrow> zone" where
  "fixed_zone minutes = \<lparr> offset_at = (\<lambda>t. minutes), offset_of_local = (\<lambda>l. minutes) \<rparr>"

definition LocalTime :: "zone \<Rightarrow> int \<Rightarrow> int" where
  "LocalTime z t = t + offset_at z t * 60000"

definition UTC :: "zone \<Rightarrow> int \<Rightarrow> int" where
  "UTC z l = l - offset_of_local z l * 60000"

text \<open>The methods of \<open>Date\<close> that \<open>getWeekRange\<close> calls.  Those that read or build local
  time take the zone.\<close>

definition getDay :: "zone \<Rightarrow> int \<Rightarrow> int" where
  "getDay z t = WeekDay (Day (LocalTime z t))"

definition getDate :: "zone \<Rightarrow> int \<Rightarrow> int" where
  "getDate z t = DateFromDay (Day (LocalTime z t))"

definition getMonth :: "zone \<Rightarrow> int \<Rightarrow> int" where
  "getMonth z t = MonthFromDay (Day (LocalTime z t))"

definition getFullYear :: "zone \<Rightarrow> int \<Rightarrow> int" where
  "getFullYear z t = YearFromDay (Day (LocalTime z t))"

text \<open>\<open>new Date(year, month, date)\<close>: local midnight of that day.  The constructor
  reads a year from 0 to 99 as a year of the twentieth century.\<close>

definition full_year :: "int \<Rightarrow> int" where
  "full_year y = (if 0 \<le> y \<and> y \<le> 99 then 1900 + y else y)"

definition new_Date :: "zone \<Rightarrow> int \<Rightarrow> int \<Rightarrow> int \<Rightarrow> int" where
  "new_Date z y m dt = UTC z (MakeDay (full_year y) m dt * msPerDay)"

text \<open>\<open>d.setHours(0, 0, 0, 0)\<close>: local midnight of the local day of \<open>d\<close>.\<close>

definition setHours_zero :: "zone \<Rightarrow> int \<Rightarrow> int" where
  "setHours_zero z t = UTC z (Day (LocalTime z t) * msPerDay)"

text \<open>\<open>d.setDate(dt)\<close>: the local year, month and time of day of \<open>d\<close>, on date \<open>dt\<close>.\<close>

definition setDate :: "zone \<Rightarrow> int \<Rightarrow> int \<Rightarrow> int" where
  "setDate z t dt =
     (let l = LocalTime z t
      in UTC z (MakeDay (YearFromDay (Day l)) (MonthFromDay (Day l)) dt * msPerDay
                + TimeWithinDay l))"

text \<open>Decimal digits, to a fixed width.\<close>

definition digit :: "nat \<Rightarrow> char" where
  "digit k = ''0123456789'' ! (k mod 10)"

fun dec :: "nat \<Rightarrow> nat \<Rightarrow> string" where
  "dec 0 k = []"
| "dec (Suc w) k = dec w (k div 10) @ [digit k]"

text \<open>\<open>toISOString\<close>: the UTC fields as \<open>YYYY-MM-DDTHH:mm:ss.sssZ\<close>; a year outside
  0..9999 is written with its sign and six digits.\<close>

definition iso_year :: "int \<Rightarrow> string" where
  "iso_year y =
     (if 0 \<le> y \<and> y \<le> 9999 then dec 4 (nat y)
      else (if y < 0 then ''-'' else ''+'') @ dec 6 (nat \<bar>y\<bar>))"

definition iso_date :: "int \<Rightarrow> string" where
  "iso_date d =
     iso_year (YearFromDay d) @ ''-'' @ dec 2 (nat (MonthFromDay d + 1)) @ ''-'' @
     dec 2 (nat (DateFromDay d))"

definition iso_time :: "int \<Rightarrow> string" where
  "iso_time ms =
     dec 2 (nat (ms div 3600000)) @ '':'' @ dec 2 (nat (ms div 60000 mod 60)) @ '':'' @
     dec 2 (nat (ms div 1000 mod 60)) @ ''.'' @ dec 3 (nat (ms mod 1000))"

definition toISOString :: "int \<Rightarrow> string" where
  "toISOString t = iso_date (Day t) @ ''T'' @ iso_time (TimeWithinDay t) @ ''Z''"

section \<open>The calendar view (components/CalendarView)\<close>

text \<open>\<open>getWeekRange\<close>, with the zone and the clock reading \<open>now\<close> as parameters.\<close>

definition getWeekRange :: "zone \<Rightarrow> int \<Rightarrow> string \<times> string" where
  "getWeekRange z now =
     (let day = getDay z now;
          diff = getDate z now - day + (if day = 0 then - 6 else 1);
          monday = setHours_zero z (new_Date z (getFullYear z now) (getMonth z now) diff);
          friday = setDate z monday (getDate z monday + 4)
      in (take 10 (toISOString monday), take 10 (toISOString friday)))"

text \<open>The day the code calls \<open>monday\<close>, from the local day \<open>d\<close> of \<open>now\<close>.\<close>

definition week_monday :: "int \<Rightarrow> int" where
  "week_monday d = d - WeekDay d + (if WeekDay d = 0 then - 6 else 1)"

text \<open>Europe/London in the autumn of 2026: summer time (one hour ahead) until
  2026-10-25T01:00:00Z, which is 02:00 local time, and UTC from then on.\<close>

definition london_autumn_2026 :: zone where
  "london_autumn_2026 =
     \<lparr> offset_at = (\<lambda>t. if t < 1792890000000 then 60 else 0),
       offset_of_local = (\<lambda>l. if l < 1792893600000 then 60 else 0) \<rparr>"

definition HOURS :: "int list" where
  "HOURS = map (\<lambda>i. i + 9) [0..<10]"

definition DAYS :: "string list" where
  "DAYS = [''Mon'', ''Tue'', ''Wed'', ''Thu'', ''Fri'']"

text \<open>
  The component: its five pieces of state (\<open>useState\<close>), \<open>fetchSlots\<close> as a function from
  the state before to the state after the call has settled, and what the returned
  element shows.  The state variables \<open>slots\<close>, \<open>message\<close> and \<open>range\<close> carry the suffix
  \<open>_state\<close>, apart from the fields of the response of the same names.
\<close>

record team =
  team_id :: string
  team_name :: string
  invite_code :: string
  role :: "string option"

record booking =
  title :: string
  slot :: api_slot
  duration :: real

record calendar_state =
  loading :: bool
  slots_state :: "api_slot list"
  message_state :: string
  booking :: "booking option"
  range_state :: "string \<times> string"

definition initial_state :: "zone \<Rightarrow> int \<Rightarrow> calendar_state" where
  "initial_state z now =
     \<lparr> loading = False, slots_state = [], message_state = [], booking = None,
       range_state = getWeekRange z now \<rparr>"

text \<open>The message the \<open>catch\<close> block shows:
  \<open>e instanceof Error ? e.message : "Failed to load availability"\<close>.\<close>

definition catch_message :: "thrown \<Rightarrow> string" where
  "catch_message err =
     (case err of Error m \<Rightarrow> m | NonError \<Rightarrow> ''Failed to load availability'')"

text \<open>Reading \<open>result.slots\<close> of a \<open>result\<close> that is \<open>null\<close> throws a \<open>TypeError\<close>, an
  \<open>Error\<close> whose message is the engine's; the text here is the one Chrome and Node
  give.\<close>

definition null_read_error :: thrown where
  "null_read_error =
     Error (''Cannot read properties of null (reading '' @ [CHR 0x27] @ ''slots'' @
            [CHR 0x27] @ '')'')"

definition fetchSlots ::
  "(http_request \<Rightarrow> thrown + availability_result http_response) \<Rightarrow> env \<Rightarrow> team \<Rightarrow>
     calendar_state \<Rightarrow> calendar_state" where
  "fetchSlots fetch e tm st =
     (let st1 = st\<lparr>loading := True, message_state := []\<rparr>;
          st2 =
            (case findAvailability fetch e (team_id tm)
                    (fst (range_state st1)) (snd (range_state st1)) (Some 30) of
               Inr (Some result) \<Rightarrow>
                 st1\<lparr>slots_state := (case slots result of None \<Rightarrow> [] | Some ss \<Rightarrow> ss),
                     message_state := (case message result of None \<Rightarrow> [] | Some m \<Rightarrow> m)\<rparr>
             | Inr None \<Rightarrow>
                 st1\<lparr>message_state := catch_message null_read_error, slots_state := []\<rparr>
             | Inl err \<Rightarrow>
                 st1\<lparr>message_state := catch_message err, slots_state := []\<rparr>)
      in st2\<lparr>loading := False\<rparr>)"

text \<open>What the element shows.  A slot button is its React key, its label and the
  booking its \<open>onClick\<close> stores.\<close>

record slot_button =
  button_key :: nat
  button_label :: string
  on_click :: booking

record view =
  range_shown :: "string \<times> string"
  spinner :: bool
  message_box :: "string option"
  slot_buttons :: "slot_button list"
  booking_dialog :: "booking option"

definition slot_button_of :: "nat \<times> api_slot \<Rightarrow> slot_button" where
  "slot_button_of p =
     \<lparr> button_key = fst p, button_label = display (snd p),
       on_click = \<lparr> title = ''Team standup'', slot = snd p, duration = 30 \<rparr> \<rparr>"

definition render :: "calendar_state \<Rightarrow> view" where
  "render st =
     \<lparr> range_shown = range_state st,
       spinner = loading st,
       message_box =
         (if \<not> loading st \<and> message_state st \<noteq> [] then Some (message_state st) else None),
       slot_buttons =
         (if \<not> loading st \<and> length (slots_state st) > 0
          then map slot_button_of (enumerate 0 (take 8 (slots_state st)))
          else []),
       booking_dialog = booking st \<rparr>"

section \<open>The availability resolver\<close>

text \<open>
  Modelled from the spec: the resolver runs in the backend, which is not among the
  sources; every definition of this section follows the specification (sections 3, 4.1
  and 4.2).  A timestamp is the number of minutes since the epoch in the team's local
  time, a date is a day number (day 0 is 1970-01-01), and an interval \<open>(s, e)\<close> is the
  half-open \<open>[s, e)\<close>.  Weekdays are numbered from 0 for Sunday, as \<open>WeekDay\<close> numbers
  them.
\<close>

type_synonym interval = "int \<times> int"

record availability_request =
  request_team_id :: string
  start_date :: int
  end_date :: int
  duration_minutes :: int
  start_hour :: int
  end_hour :: int
  days_included :: "int set"

text \<open>Modelled from the spec: the defaults of the data model (section 3), working hours
  9 to 17, Monday to Friday.\<close>

definition default_request :: "string \<Rightarrow> int \<Rightarrow> int \<Rightarrow> int \<Rightarrow> availability_request" where
  "default_request tid sd ed dur =
     \<lparr> request_team_id = tid, start_date = sd, end_date = ed, duration_minutes = dur,
       start_hour = 9, end_hour = 17, days_included = {1, 2, 3, 4, 5} \<rparr>"

record found_slot =
  found_start :: int
  found_end :: int
  found_display :: string

record resolver_result =
  result_slots :: "found_slot list"
  result_message :: string

datatype resolver_error = InvalidRequest

subsection \<open>Slot display formatting\<close>

fun show_nat :: "nat \<Rightarrow> string" where
  "show_nat n = (if n < 10 then [digit n] else show_nat (n div 10) @ [digit n])"

definition weekday_name :: "int \<Rightarrow> string" where
  "weekday_name w = [''Sun'', ''Mon'', ''Tue'', ''Wed'', ''Thu'', ''Fri'', ''Sat''] ! nat (w mod 7)"

definition month_name :: "int \<Rightarrow> string" where
  "month_name m =
     [''Jan'', ''Feb'', ''Mar'', ''Apr'', ''May'', ''Jun'',
      ''Jul'', ''Aug'', ''Sep'', ''Oct'', ''Nov'', ''Dec''] ! nat (m mod 12)"

definition clock12 :: "int \<Rightarrow> string" where
  "clock12 minute_of_day =
     (let h = minute_of_day div 60 mod 24; h12 = (if h mod 12 = 0 then 12 else h mod 12)
      in show_nat (nat h12) @ '':'' @ dec 2 (nat (minute_of_day mod 60)))"

definition meridiem :: "int \<Rightarrow> string" where
  "meridiem minute_of_day = (if minute_of_day div 60 mod 24 < 12 then ''AM'' else ''PM'')"

text \<open>
  Modelled from the spec: \<open>format_slot\<close> is not among the sources.  Section 4.2 asks for
  the weekday, the date and the start and end times in a fixed format and gives
  \<open>Mon, Mar 3 (middle dot) 2:00(en dash)2:30 PM\<close> as its example.  The model writes that
  format, the two signs as their UTF-8 bytes; the start time carries its own AM or PM
  when it differs from that of the end.
\<close>

definition format_slot :: "int \<Rightarrow> int \<Rightarrow> string" where
  "format_slot s e =
     (let d = s div 1440; sm = s mod 1440; em = e mod 1440 in
      weekday_name (WeekDay d) @ '', '' @ month_name (MonthFromDay d) @ '' '' @
      show_nat (nat (DateFromDay d)) @ '' '' @ [CHR 0xC2, CHR 0xB7] @ '' '' @
      clock12 sm @ (if meridiem sm = meridiem em then [] else '' '' @ meridiem sm) @
      [CHR 0xE2, CHR 0x80, CHR 0x93] @ clock12 em @ '' '' @ meridiem em)"

subsection \<open>The algorithm\<close>

text \<open>Modelled from the spec: step 1, the candidate days, every date of the range whose
  weekday is included.\<close>

definition candidate_days :: "availability_request \<Rightarrow> int list" where
  "candidate_days req =
     filter (\<lambda>d. WeekDay d \<in> days_included req) [start_date req .. end_date req]"

text \<open>Modelled from the spec: step 2, the working window of a day.\<close>

definition day_window :: "availability_request \<Rightarrow> int \<Rightarrow> interval" where
  "day_window req d = (d * 1440 + start_hour req * 60, d * 1440 + end_hour req * 60)"

text \<open>Modelled from the spec: step 3, a member's free intervals of the day.  The busy
  intervals are cut to the window, sorted by their start and walked from left to right
  with a cursor at the start of the free time that remains.\<close>

definition clip :: "interval \<Rightarrow> interval \<Rightarrow> interval" where
  "clip w b = (max (fst w) (fst b), min (snd w) (snd b))"

definition clipped_busy :: "interval \<Rightarrow> interval list \<Rightarrow> interval list" where
  "clipped_busy w bs = filter (\<lambda>b. fst b < snd b) (map (clip w) bs)"

fun free_walk :: "int \<Rightarrow> int \<Rightarrow> interval list \<Rightarrow> interval list" where
  "free_walk cursor we [] = (if cursor < we then [(cursor, we)] else [])"
| "free_walk cursor we (b # bs) =
     (if cursor < fst b then [(cursor, fst b)] else []) @ free_walk (max cursor (snd b)) we bs"

definition member_free :: "interval \<Rightarrow> interval list \<Rightarrow> interval list" where
  "member_free w busy = free_walk (fst w) (snd w) (sort_key fst (clipped_busy w busy))"

text \<open>Modelled from the spec: the members considered are the keys of the busy set, each
  once; the entries of a member listed twice are joined (section 4.1, edge cases).\<close>

definition members :: "(string \<times> interval list) list \<Rightarrow> string list" where
  "members team_busy = remdups (map fst team_busy)"

definition busy_of :: "(string \<times> interval list) list \<Rightarrow> string \<Rightarrow> interval list" where
  "busy_of team_busy m = concat (map snd (filter (\<lambda>p. fst p = m) team_busy))"

text \<open>Modelled from the spec: step 4, the sweep.  Every free interval gives a start
  event (\<open>+1\<close>) and an end event (\<open>-1\<close>); the events are sorted by time, an end before
  a start at the same time; the count is the number of members free; a run is open
  while the count is the team size.  A team of no members is free over the whole
  window.\<close>

definition events :: "interval list list \<Rightarrow> (int \<times> int) list" where
  "events frees = concat (map (\<lambda>iv. [(fst iv, 1), (snd iv, - 1)]) (concat frees))"

fun sweep :: "int \<Rightarrow> int \<Rightarrow> int option \<Rightarrow> int \<Rightarrow> (int \<times> int) list \<Rightarrow> interval list" where
  "sweep n c run we [] =
     (case run of None \<Rightarrow> [] | Some s \<Rightarrow> if s < we then [(s, we)] else [])"
| "sweep n c run we (ev # evs) =
     (let c' = c + snd ev in
      if c = n \<and> c' \<noteq> n then
        (case run of None \<Rightarrow> [] | Some s \<Rightarrow> if s < fst ev then [(s, fst ev)] else [])
        @ sweep n c' None we evs
      else if c \<noteq> n \<and> c' = n then sweep n c' (Some (fst ev)) we evs
      else sweep n c' run we evs)"

definition common_windows :: "interval \<Rightarrow> interval list list \<Rightarrow> interval list" where
  "common_windows w frees =
     sweep (int (length frees)) 0 (if frees = [] then Some (fst w) else None) (snd w)
       (sort_key (\<lambda>ev. ev) (events frees))"

text \<open>Modelled from the spec: step 5, greedy tiling of a window by the full duration.\<close>

function tile :: "int \<Rightarrow> int \<Rightarrow> int \<Rightarrow> interval list" where
  "tile dur s we = (if 0 < dur \<and> s + dur \<le> we then (s, s + dur) # tile dur (s + dur) we else [])"
  by pat_completeness auto
termination
  by (relation "measure (\<lambda>(dur, s, we). nat (we - s))") auto

definition day_windows ::
  "(string \<times> interval list) list \<Rightarrow> availability_request \<Rightarrow> int \<Rightarrow> interval list" where
  "day_windows team_busy req d =
     common_windows (day_window req d)
       (map (\<lambda>m. member_free (day_window req d) (busy_of team_busy m)) (members team_busy))"

definition day_slots ::
  "(string \<times> interval list) list \<Rightarrow> availability_request \<Rightarrow> int \<Rightarrow> interval list" where
  "day_slots team_busy req d =
     concat (map (\<lambda>w. tile (duration_minutes req) (fst w) (snd w)) (day_windows team_busy req d))"

definition no_common_slot_message :: string where
  "no_common_slot_message = ''No common free slot exists for the team in the requested range.''"

definition to_slot :: "interval \<Rightarrow> found_slot" where
  "to_slot iv =
     \<lparr> found_start = fst iv, found_end = snd iv, found_display = format_slot (fst iv) (snd iv) \<rparr>"

text \<open>
  Modelled from the spec: \<open>find_common_slots\<close> is not among the sources.  Section 4.1:
  a duration of zero or less and an end date before the start date fail with
  \<open>InvalidRequest\<close>; the slots of the candidate days follow one another in order of time
  (step 6); with no slot at all the result is the empty sequence and a message.  The
  spec fixes no message for a result with slots; the model leaves it empty.
\<close>

definition find_common_slots ::
  "(string \<times> interval list) list \<Rightarrow> availability_request \<Rightarrow> resolver_error + resolver_result" where
  "find_common_slots team_busy req =
     (if duration_minutes req \<le> 0 then Inl InvalidRequest
      else if end_date req < start_date req then Inl InvalidRequest
      else
        let found = map to_slot (concat (map (day_slots team_busy req) (candidate_days req)))
        in Inr \<lparr> result_slots = found,
                 result_message = (if found = [] then no_common_slot_message else []) \<rparr>)"

text \<open>A request carries an \<open>Authorization\<close> header when that name is among the keys
  of its header object.\<close>

definition sends_authorization :: "http_request \<Rightarrow> bool" where
  "sends_authorization rq = (''Authorization'' \<in> set (map fst (headers rq)))"

section \<open>Properties of the client\<close>

lemma authHeaders_cases:
  "authHeaders e =
     (if window_defined e \<and> (\<exists>key. localStorage e ''cortex_api_key'' = Some key \<and> key \<noteq> [])
      then [(''Authorization'', ''Bearer '' @ the (localStorage e ''cortex_api_key''))]
      else [])"
  by (auto simp: authHeaders_def split: option.splits)

text \<open>What \<open>findAvailability\<close> and \<open>bookMeeting\<close> do with the outcome of the one request
  each sends.\<close>

lemma findAvailability_outcome:
  "findAvailability fetch e teamId startDate endDate d =
     (case fetch (findAvailability_request e teamId startDate endDate d) of
        Inl rejection \<Rightarrow> Inl rejection
      | Inr res \<Rightarrow> if ok res then json res else Inl (Error ''Failed to find availability''))"
  by (simp add: findAvailability_def split: sum.splits)

lemma bookMeeting_outcome:
  "bookMeeting fetch e teamId title' startTime d =
     (case fetch (bookMeeting_request e teamId title' startTime d) of
        Inl rejection \<Rightarrow> Inl rejection
      | Inr res \<Rightarrow> if ok res then json res else Inl (Error ''Failed to book meeting''))"
  by (simp add: bookMeeting_def split: sum.splits)

text \<open>
  C1.  The availability call: for every team id, pair of dates and duration,
  \<open>findAvailability\<close> sends a POST to \<open>/teams/{teamId}/availability/find\<close> whose JSON body
  has exactly the keys \<open>start_date\<close>, \<open>end_date\<close> and \<open>duration_minutes\<close>, with the values
  it was given (the team id travels in the path), and on an ok response it returns what
  \<open>res.json()\<close> gives: the parsed object, a value of the type with the fields \<open>slots\<close>
  (each slot with its \<open>start\<close>, \<open>end\<close> and \<open>display\<close>) and \<open>message\<close>.
\<close>

theorem findAvailability_contract:
  fixes fetch :: "http_request \<Rightarrow> thrown + availability_result http_response"
  shows "(let rq = findAvailability_request e teamId startDate endDate (Some d) in
          http_method rq = POST
        \<and> url rq = API_BASE e @ ''/teams/'' @ teamId @ ''/availability/find''
        \<and> body rq =
            Some (JObj [(''start_date'', JStr startDate), (''end_date'', JStr endDate),
                        (''duration_minutes'', JNum d)])
        \<and> (fetch rq = Inr res \<and> ok res \<longrightarrow>
             findAvailability fetch e teamId startDate endDate (Some d) = json res)
        \<and> (fetch rq = Inr res \<and> ok res \<and> json res = Inr (Some result) \<longrightarrow>
             findAvailability fetch e teamId startDate endDate (Some d) = Inr (Some result)))"
  by (simp add: findAvailability_request_def findAvailability_def default_duration_def)

theorem findAvailability_contract_witness:
  "findAvailability
     (\<lambda>rq. Inr \<lparr> ok = True,
             json = Inr (Some \<lparr> slots = Some [\<lparr> slot_start = ''2026-02-09T10:00:00'',
                                       slot_end = ''2026-02-09T10:30:00'',
                                       display = ''Mon, Feb 9'' \<rparr>],
                        message = Some ''Found 1 slot'' \<rparr>) \<rparr>)
     \<lparr> NEXT_PUBLIC_API_URL = None, window_defined = True, localStorage = Map.empty \<rparr>
     ''t1'' ''2026-02-09'' ''2026-02-13'' (Some 30)
   = Inr (Some \<lparr> slots = Some [\<lparr> slot_start = ''2026-02-09T10:00:00'',
                            slot_end = ''2026-02-09T10:30:00'',
                            display = ''Mon, Feb 9'' \<rparr>],
             message = Some ''Found 1 slot'' \<rparr>)"
  using findAvailability_contract
    [where e = "\<lparr> NEXT_PUBLIC_API_URL = None, window_defined = True, localStorage = Map.empty \<rparr>"
       and teamId = "''t1''" and startDate = "''2026-02-09''" and endDate = "''2026-02-13''"
       and d = 30
       and fetch = "\<lambda>rq. Inr \<lparr> ok = True,
             json = Inr (Some \<lparr> slots = Some [\<lparr> slot_start = ''2026-02-09T10:00:00'',
                                       slot_end = ''2026-02-09T10:30:00'',
                                       display = ''Mon, Feb 9'' \<rparr>],
                        message = Some ''Found 1 slot'' \<rparr>) \<rparr>"
       and res = "\<lparr> ok = True,
             json = Inr (Some \<lparr> slots = Some [\<lparr> slot_start = ''2026-02-09T10:00:00'',
                                       slot_end = ''2026-02-09T10:30:00'',
                                       display = ''Mon, Feb 9'' \<rparr>],
                        message = Some ''Found 1 slot'' \<rparr>) \<rparr>"]
  by (simp add: Let_def)

text \<open>
  C8.  With \<open>durationMinutes\<close> omitted, the one request \<open>findAvailability\<close> sends and the
  one request \<open>bookMeeting\<close> sends have a body with \<open>duration_minutes\<close> equal to 30.  The
  outcome of each call is what \<open>fetch\<close> gives for that request, for every \<open>fetch\<close>, so
  that request is the one sent; and each call is the call with the argument 30.
\<close>

theorem default_duration_30:
  fixes fetch :: "http_request \<Rightarrow> thrown + availability_result http_response"
    and fetch' :: "http_request \<Rightarrow> thrown + booking_result http_response"
  shows
  "body (findAvailability_request e teamId startDate endDate None) =
     Some (JObj [(''start_date'', JStr startDate), (''end_date'', JStr endDate),
                 (''duration_minutes'', JNum 30)])
   \<and> body (bookMeeting_request e teamId title' startTime None) =
     Some (JObj [(''title'', JStr title'), (''start_time'', JStr startTime),
                 (''duration_minutes'', JNum 30)])
   \<and> findAvailability fetch e teamId startDate endDate None =
       (case fetch (findAvailability_request e teamId startDate endDate None) of
          Inl rejection \<Rightarrow> Inl rejection
        | Inr res \<Rightarrow> if ok res then json res else Inl (Error ''Failed to find availability''))
   \<and> bookMeeting fetch' e teamId title' startTime None =
       (case fetch' (bookMeeting_request e teamId title' startTime None) of
          Inl rejection \<Rightarrow> Inl rejection
        | Inr res \<Rightarrow> if ok res then json res else Inl (Error ''Failed to book meeting''))
   \<and> findAvailability fetch e teamId startDate endDate None =
       findAvailability fetch e teamId startDate endDate (Some 30)
   \<and> bookMeeting fetch' e teamId title' startTime None =
       bookMeeting fetch' e teamId title' startTime (Some 30)"
proof (intro conjI)
  show "body (findAvailability_request e teamId startDate endDate None) =
     Some (JObj [(''start_date'', JStr startDate), (''end_date'', JStr endDate),
                 (''duration_minutes'', JNum 30)])"
    by (simp add: findAvailability_request_def default_duration_def)
  show "body (bookMeeting_request e teamId title' startTime None) =
     Some (JObj [(''title'', JStr title'), (''start_time'', JStr startTime),
                 (''duration_minutes'', JNum 30)])"
    by (simp add: bookMeeting_request_def default_duration_def)
  show "findAvailability fetch e teamId startDate endDate None =
       (case fetch (findAvailability_request e teamId startDate endDate None) of
          Inl rejection \<Rightarrow> Inl rejection
        | Inr res \<Rightarrow> if ok res then json res else Inl (Error ''Failed to find availability''))"
    by (rule findAvailability_outcome)
  show "bookMeeting fetch' e teamId title' startTime None =
       (case fetch' (bookMeeting_request e teamId title' startTime None) of
          Inl rejection \<Rightarrow> Inl rejection
        | Inr res \<Rightarrow> if ok res then json res else Inl (Error ''Failed to book meeting''))"
    by (rule bookMeeting_outcome)
  show "findAvailability fetch e teamId startDate endDate None =
       findAvailability fetch e teamId startDate endDate (Some 30)"
    by (simp add: findAvailability_def findAvailability_request_def default_duration_def)
  show "bookMeeting fetch' e teamId title' startTime None =
       bookMeeting fetch' e teamId title' startTime (Some 30)"
    by (simp add: bookMeeting_def bookMeeting_request_def default_duration_def)
qed

text \<open>A backend that answers ok only to a request whose body has \<open>duration_minutes\<close>
  equal to 30 answers ok to both calls made without a duration.\<close>

theorem default_duration_30_witness:
  "findAvailability
     (\<lambda>rq. Inr \<lparr> ok = (\<exists>fields. body rq = Some (JObj fields)
                          \<and> map_of fields ''duration_minutes'' = Some (JNum 30)),
                  json = Inr (Some \<lparr> slots = Some [], message = Some ''none'' \<rparr>) \<rparr>)
     \<lparr> NEXT_PUBLIC_API_URL = None, window_defined = False, localStorage = Map.empty \<rparr>
     ''t1'' ''2026-02-09'' ''2026-02-13'' None
     = Inr (Some \<lparr> slots = Some [], message = Some ''none'' \<rparr>)
   \<and> bookMeeting
     (\<lambda>rq. Inr \<lparr> ok = (\<exists>fields. body rq = Some (JObj fields)
                          \<and> map_of fields ''duration_minutes'' = Some (JNum 30)),
                  json = Inr (Some \<lparr> booking_message = Some ''booked'' \<rparr>) \<rparr>)
     \<lparr> NEXT_PUBLIC_API_URL = None, window_defined = False, localStorage = Map.empty \<rparr>
     ''t1'' ''Team standup'' ''2026-02-09T10:00:00'' None
     = Inr (Some \<lparr> booking_message = Some ''booked'' \<rparr>)"
  using default_duration_30
    [where e = "\<lparr> NEXT_PUBLIC_API_URL = None, window_defined = False, localStorage = Map.empty \<rparr>"
       and teamId = "''t1''" and startDate = "''2026-02-09''" and endDate = "''2026-02-13''"
       and title' = "''Team standup''" and startTime = "''2026-02-09T10:00:00''"
       and fetch = "\<lambda>rq. Inr \<lparr> ok = (\<exists>fields. body rq = Some (JObj fields)
                          \<and> map_of fields ''duration_minutes'' = Some (JNum 30)),
                  json = Inr (Some \<lparr> slots = Some [], message = Some ''none'' \<rparr>) \<rparr>"
       and fetch' = "\<lambda>rq. Inr \<lparr> ok = (\<exists>fields. body rq = Some (JObj fields)
                          \<and> map_of fields ''duration_minutes'' = Some (JNum 30)),
                  json = Inr (Some \<lparr> booking_message = Some ''booked'' \<rparr>) \<rparr>"]
  by simp

lemma authHeaders_iff:
  "(authHeaders e = [(''Authorization'', ''Bearer '' @ key)]) =
     (window_defined e \<and> localStorage e ''cortex_api_key'' = Some key \<and> key \<noteq> [])"
  by (auto simp: authHeaders_def split: option.splits)

lemma authHeaders_empty_iff:
  "(authHeaders e = []) =
     (\<not> (window_defined e \<and> (\<exists>key. localStorage e ''cortex_api_key'' = Some key \<and> key \<noteq> [])))"
  by (auto simp: authHeaders_def split: option.splits)

lemma authHeaders_keys:
  "map fst (authHeaders e) =
     (if window_defined e \<and> (\<exists>key. localStorage e ''cortex_api_key'' = Some key \<and> key \<noteq> [])
      then [''Authorization''] else [])"
  by (simp add: authHeaders_cases)

lemma json_auth_headers_keys:
  "map fst (json_auth_headers e) =
     (if window_defined e \<and> (\<exists>key. localStorage e ''cortex_api_key'' = Some key \<and> key \<noteq> [])
      then [''Content-Type'', ''Authorization''] else [''Content-Type''])"
  by (simp add: json_auth_headers_def authHeaders_keys)

lemma sends_authorization_json:
  "headers rq = json_auth_headers e \<Longrightarrow> sends_authorization rq = (authHeaders e \<noteq> [])"
  by (simp add: sends_authorization_def json_auth_headers_keys authHeaders_empty_iff)

lemma sends_authorization_plain:
  "headers rq = authHeaders e \<Longrightarrow> sends_authorization rq = (authHeaders e \<noteq> [])"
  by (simp add: sends_authorization_def authHeaders_keys authHeaders_empty_iff)

lemma registerUser_no_authorization:
  "\<not> sends_authorization (registerUser_request e name email)"
  by (simp add: sends_authorization_def registerUser_request_def)

text \<open>
  C9, as amended.  \<open>authHeaders\<close> returns the header \<open>Authorization: Bearer key\<close> exactly
  when the code runs in a browser and \<open>key\<close>, not empty, is stored under
  \<open>cortex_api_key\<close>, and the empty header map in every other case; each request of the
  team API other than that of \<open>registerUser\<close> carries an \<open>Authorization\<close> header exactly
  when \<open>authHeaders\<close> is not empty; and the request of \<open>registerUser\<close> never carries one.
\<close>

theorem authorization_header_iff_credential:
  "((authHeaders e = [(''Authorization'', ''Bearer '' @ key)]) =
      (window_defined e \<and> localStorage e ''cortex_api_key'' = Some key \<and> key \<noteq> []))
   \<and> ((authHeaders e = []) =
      (\<not> (window_defined e \<and> (\<exists>key. localStorage e ''cortex_api_key'' = Some key \<and> key \<noteq> []))))
   \<and> sends_authorization (createTeam_request e name) = (authHeaders e \<noteq> [])
   \<and> sends_authorization (joinTeam_request e inviteCode) = (authHeaders e \<noteq> [])
   \<and> sends_authorization (getMyTeams_request e) = (authHeaders e \<noteq> [])
   \<and> sends_authorization (getTeamMembers_request e teamId) = (authHeaders e \<noteq> [])
   \<and> sends_authorization (updatePokeKey_request e teamId pokeApiKey) = (authHeaders e \<noteq> [])
   \<and> sends_authorization (findAvailability_request e teamId startDate endDate d) = (authHeaders e \<noteq> [])
   \<and> sends_authorization (bookMeeting_request e teamId title' startTime d) = (authHeaders e \<noteq> [])
   \<and> \<not> sends_authorization (registerUser_request e name email)"
proof (intro conjI)
  show "(authHeaders e = [(''Authorization'', ''Bearer '' @ key)]) =
      (window_defined e \<and> localStorage e ''cortex_api_key'' = Some key \<and> key \<noteq> [])"
    by (rule authHeaders_iff)
  show "(authHeaders e = []) =
      (\<not> (window_defined e \<and> (\<exists>key. localStorage e ''cortex_api_key'' = Some key \<and> key \<noteq> [])))"
    by (rule authHeaders_empty_iff)
  show "sends_authorization (createTeam_request e name) = (authHeaders e \<noteq> [])"
    by (rule sends_authorization_json) (simp add: createTeam_request_def)
  show "sends_authorization (joinTeam_request e inviteCode) = (authHeaders e \<noteq> [])"
    by (rule sends_authorization_json) (simp add: joinTeam_request_def)
  show "sends_authorization (getMyTeams_request e) = (authHeaders e \<noteq> [])"
    by (rule sends_authorization_plain) (simp add: getMyTeams_request_def)
  show "sends_authorization (getTeamMembers_request e teamId) = (authHeaders e \<noteq> [])"
    by (rule sends_authorization_plain) (simp add: getTeamMembers_request_def)
  show "sends_authorization (updatePokeKey_request e teamId pokeApiKey) = (authHeaders e \<noteq> [])"
    by (rule sends_authorization_json) (simp add: updatePokeKey_request_def)
  show "sends_authorization (findAvailability_request e teamId startDate endDate d) = (authHeaders e \<noteq> [])"
    by (rule sends_authorization_json) (simp add: findAvailability_request_def)
  show "sends_authorization (bookMeeting_request e teamId title' startTime d) = (authHeaders e \<noteq> [])"
    by (rule sends_authorization_json) (simp add: bookMeeting_request_def)
  show "\<not> sends_authorization (registerUser_request e name email)"
    by (rule registerUser_no_authorization)
qed

theorem authorization_header_iff_credential_witness:
  "headers (findAvailability_request
      \<lparr> NEXT_PUBLIC_API_URL = None, window_defined = True,
        localStorage = [''cortex_api_key'' \<mapsto> ''k1''] \<rparr> ''t1'' ''2026-02-09'' ''2026-02-13'' None)
     = [(''Content-Type'', ''application/json''), (''Authorization'', ''Bearer k1'')]
   \<and> sends_authorization (findAvailability_request
      \<lparr> NEXT_PUBLIC_API_URL = None, window_defined = True,
        localStorage = [''cortex_api_key'' \<mapsto> ''k1''] \<rparr> ''t1'' ''2026-02-09'' ''2026-02-13'' None)
   \<and> \<not> sends_authorization (findAvailability_request
      \<lparr> NEXT_PUBLIC_API_URL = None, window_defined = True,
        localStorage = [''cortex_api_key'' \<mapsto> []] \<rparr> ''t1'' ''2026-02-09'' ''2026-02-13'' None)
   \<and> \<not> sends_authorization (findAvailability_request
      \<lparr> NEXT_PUBLIC_API_URL = None, window_defined = False,
        localStorage = [''cortex_api_key'' \<mapsto> ''k1''] \<rparr> ''t1'' ''2026-02-09'' ''2026-02-13'' None)"
proof -
  let ?e1 = "\<lparr> NEXT_PUBLIC_API_URL = None, window_defined = True,
               localStorage = [''cortex_api_key'' \<mapsto> ''k1''] \<rparr>"
  let ?e2 = "\<lparr> NEXT_PUBLIC_API_URL = None, window_defined = True,
               localStorage = [''cortex_api_key'' \<mapsto> []] \<rparr>"
  let ?e3 = "\<lparr> NEXT_PUBLIC_API_URL = None, window_defined = False,
               localStorage = [''cortex_api_key'' \<mapsto> ''k1''] \<rparr>"
  note t1 = authorization_header_iff_credential [where e = ?e1 and key = "''k1''"
      and teamId = "''t1''" and startDate = "''2026-02-09''" and endDate = "''2026-02-13''"
      and d = None]
  note t2 = authorization_header_iff_credential [where e = ?e2
      and teamId = "''t1''" and startDate = "''2026-02-09''" and endDate = "''2026-02-13''"
      and d = None]
  note t3 = authorization_header_iff_credential [where e = ?e3
      and teamId = "''t1''" and startDate = "''2026-02-09''" and endDate = "''2026-02-13''"
      and d = None]
  from t1 have a1: "authHeaders ?e1 = [(''Authorization'', ''Bearer k1'')]"
    by simp
  from t2 have a2: "authHeaders ?e2 = []"
    by simp
  from t3 have a3: "authHeaders ?e3 = []"
    by simp
  from t1 a1 have s1: "sends_authorization
      (findAvailability_request ?e1 ''t1'' ''2026-02-09'' ''2026-02-13'' None)"
    by simp
  from t2 a2 have s2: "\<not> sends_authorization
      (findAvailability_request ?e2 ''t1'' ''2026-02-09'' ''2026-02-13'' None)"
    by simp
  from t3 a3 have s3: "\<not> sends_authorization
      (findAvailability_request ?e3 ''t1'' ''2026-02-09'' ''2026-02-13'' None)"
    by simp
  have h: "headers (findAvailability_request ?e1 ''t1'' ''2026-02-09'' ''2026-02-13'' None)
      = [(''Content-Type'', ''application/json''), (''Authorization'', ''Bearer k1'')]"
    by (simp add: findAvailability_request_def json_auth_headers_def a1)
  from h s1 s2 s3 show ?thesis
    by blast
qed

text \<open>
  C9, as stated, fails for \<open>registerUser\<close>: its request has the fixed header
  \<open>Content-Type\<close> alone, so with a credential stored it still carries no
  \<open>Authorization\<close> header.
\<close>

theorem registerUser_sends_no_authorization:
  "authHeaders \<lparr> NEXT_PUBLIC_API_URL = None, window_defined = True,
                 localStorage = [''cortex_api_key'' \<mapsto> ''k1''] \<rparr>
     = [(''Authorization'', ''Bearer k1'')]
   \<and> \<not> sends_authorization
         (registerUser_request
            \<lparr> NEXT_PUBLIC_API_URL = None, window_defined = True,
              localStorage = [''cortex_api_key'' \<mapsto> ''k1''] \<rparr> ''Ada'' None)"
  by (simp add: sends_authorization_def registerUser_request_def authHeaders_def)

text \<open>\<open>fetchSlots\<close>, outcome by outcome of \<open>findAvailability\<close>.\<close>

lemma fetchSlots_result:
  assumes "findAvailability fetch e (team_id tm) (fst (range_state st)) (snd (range_state st))
             (Some 30) = Inr (Some result)"
  shows "fetchSlots fetch e tm st =
     st\<lparr>loading := False,
        slots_state := (case slots result of None \<Rightarrow> [] | Some ss \<Rightarrow> ss),
        message_state := (case message result of None \<Rightarrow> [] | Some m \<Rightarrow> m)\<rparr>"
  using assms by (simp add: fetchSlots_def Let_def)



lemma fetchSlots_ok:
  assumes "fetch (findAvailability_request e (team_id tm)
                 (fst (range_state st)) (snd (range_state st)) (Some 30)) = Inr res"
    and "ok res" and "json res = Inr (Some result)"
  shows "fetchSlots fetch e tm st =
     st\<lparr>loading := False,
        slots_state := (case slots result of None \<Rightarrow> [] | Some ss \<Rightarrow> ss),
        message_state := (case message result of None \<Rightarrow> [] | Some m \<Rightarrow> m)\<rparr>"
  by (rule fetchSlots_result) (simp add: findAvailability_outcome assms)

lemma slot_buttons_render:
  "slot_buttons (render st) =
     (if loading st then [] else map slot_button_of (enumerate 0 (take 8 (slots_state st))))"
  by (simp add: render_def)

lemma slot_buttons_length: "length (slot_buttons (render st)) \<le> 8"
  by (simp add: slot_buttons_render)

lemma slot_buttons_nth:
  assumes "i < length (slot_buttons (render st))"
  shows "slot_buttons (render st) ! i =
           \<lparr> button_key = i, button_label = display (slots_state st ! i),
             on_click = \<lparr> title = ''Team standup'', slot = slots_state st ! i, duration = 30 \<rparr> \<rparr>"
proof -
  from assms have nl: "\<not> loading st" and i: "i < length (take 8 (slots_state st))"
    by (auto simp: slot_buttons_render split: if_splits)
  then have "slot_buttons (render st) ! i = slot_button_of (enumerate 0 (take 8 (slots_state st)) ! i)"
    by (simp add: slot_buttons_render)
  also have "enumerate 0 (take 8 (slots_state st)) ! i = (i, slots_state st ! i)"
    using i by (simp add: nth_enumerate_eq)
  finally show ?thesis
    by (simp add: slot_button_of_def)
qed

lemma button_labels:
  "map (button_label \<circ> slot_button_of) (enumerate n xs) = map display xs"
  by (induction xs arbitrary: n) (simp_all add: slot_button_of_def)

text \<open>
  C10.  The view shows a booking button for each of the first eight slots of its state
  and for no other: when it is not loading there are \<open>min 8 n\<close> buttons for \<open>n\<close> slots,
  button \<open>i\<close> is the button of slot \<open>i\<close> (its label that slot's \<open>display\<close>, its click
  booking that slot), and after \<open>fetchSlots\<close> has received an ok response with the slot
  list \<open>ss\<close> the labels shown are those of \<open>take 8 ss\<close>, in the order received.
\<close>

theorem first_eight_slots_shown:
  "length (slot_buttons (render st)) = (if loading st then 0 else min 8 (length (slots_state st)))
   \<and> (\<forall>i < length (slot_buttons (render st)).
        i < 8 \<and>
        slot_buttons (render st) ! i =
          \<lparr> button_key = i, button_label = display (slots_state st ! i),
            on_click = \<lparr> title = ''Team standup'', slot = slots_state st ! i, duration = 30 \<rparr> \<rparr>)
   \<and> (fetch (findAvailability_request e (team_id tm)
                 (fst (range_state st)) (snd (range_state st)) (Some 30)) = Inr res \<and>
      ok res \<and> json res = Inr (Some result) \<and> slots result = Some ss \<longrightarrow>
      map button_label (slot_buttons (render (fetchSlots fetch e tm st))) =
        map display (take 8 ss))"
proof (intro conjI allI impI)
  show "length (slot_buttons (render st)) = (if loading st then 0 else min 8 (length (slots_state st)))"
    by (simp add: slot_buttons_render min.commute)
next
  fix i assume i: "i < length (slot_buttons (render st))"
  with slot_buttons_length [of st] show "i < 8"
    by simp
  from i show "slot_buttons (render st) ! i =
          \<lparr> button_key = i, button_label = display (slots_state st ! i),
            on_click = \<lparr> title = ''Team standup'', slot = slots_state st ! i, duration = 30 \<rparr> \<rparr>"
    by (rule slot_buttons_nth)
next
  assume a: "fetch (findAvailability_request e (team_id tm)
                 (fst (range_state st)) (snd (range_state st)) (Some 30)) = Inr res \<and>
      ok res \<and> json res = Inr (Some result) \<and> slots result = Some ss"
  then have "fetchSlots fetch e tm st =
     st\<lparr>loading := False, slots_state := ss,
        message_state := (case message result of None \<Rightarrow> [] | Some m \<Rightarrow> m)\<rparr>"
    by (simp add: fetchSlots_ok [of fetch e tm st res result])
  then show "map button_label (slot_buttons (render (fetchSlots fetch e tm st))) =
        map display (take 8 ss)"
    by (simp add: slot_buttons_render button_labels)
qed

theorem first_eight_slots_shown_witness:
  "map button_label (slot_buttons (render (fetchSlots
     (\<lambda>rq. Inr \<lparr> ok = True,
             json = Inr (Some \<lparr> slots = Some (map (\<lambda>n. \<lparr> slot_start = n, slot_end = n, display = n \<rparr>)
                                   [''a'', ''b'', ''c'', ''d'', ''e'', ''f'', ''g'', ''h'', ''i'', ''j'']),
                        message = None \<rparr>) \<rparr>)
     \<lparr> NEXT_PUBLIC_API_URL = None, window_defined = False, localStorage = Map.empty \<rparr>
     \<lparr> team_id = ''t1'', team_name = ''Team'', invite_code = ''ABC'', role = None \<rparr>
     \<lparr> loading = False, slots_state = [], message_state = [], booking = None,
       range_state = (''2026-02-09'', ''2026-02-13'') \<rparr>)))
   = [''a'', ''b'', ''c'', ''d'', ''e'', ''f'', ''g'', ''h'']"
  using first_eight_slots_shown
    [where st = "\<lparr> loading = False, slots_state = [], message_state = [], booking = None,
          range_state = (''2026-02-09'', ''2026-02-13'') \<rparr>"
       and fetch = "\<lambda>rq. Inr \<lparr> ok = True,
             json = Inr (Some \<lparr> slots = Some (map (\<lambda>n. \<lparr> slot_start = n, slot_end = n, display = n \<rparr>)
                                   [''a'', ''b'', ''c'', ''d'', ''e'', ''f'', ''g'', ''h'', ''i'', ''j'']),
                        message = None \<rparr>) \<rparr>"
       and e = "\<lparr> NEXT_PUBLIC_API_URL = None, window_defined = False, localStorage = Map.empty \<rparr>"
       and tm = "\<lparr> team_id = ''t1'', team_name = ''Team'', invite_code = ''ABC'', role = None \<rparr>"
       and res = "\<lparr> ok = True,
             json = Inr (Some \<lparr> slots = Some (map (\<lambda>n. \<lparr> slot_start = n, slot_end = n, display = n \<rparr>)
                                   [''a'', ''b'', ''c'', ''d'', ''e'', ''f'', ''g'', ''h'', ''i'', ''j'']),
                        message = None \<rparr>) \<rparr>"
       and result = "\<lparr> slots = Some (map (\<lambda>n. \<lparr> slot_start = n, slot_end = n, display = n \<rparr>)
                                   [''a'', ''b'', ''c'', ''d'', ''e'', ''f'', ''g'', ''h'', ''i'', ''j'']),
                        message = None \<rparr>"
       and ss = "map (\<lambda>n. \<lparr> slot_start = n, slot_end = n, display = n \<rparr>)
                                   [''a'', ''b'', ''c'', ''d'', ''e'', ''f'', ''g'', ''h'', ''i'', ''j'']"]
  by simp

section \<open>Properties of the resolver\<close>

text \<open>Bounds: what each step yields lies in the window it was given.\<close>

declare tile.simps [simp del]


lemma tile_closed_form:
  "0 < dur \<Longrightarrow>
   tile dur s we =
     map (\<lambda>k. (s + int k * dur, s + (int k + 1) * dur)) [0..<nat ((we - s) div dur)]"
proof (induction dur s we rule: tile.induct)
  case (1 dur s we)
  show ?case
  proof (cases "s + dur \<le> we")
    case True
    have d: "(we - s) div dur = (we - (s + dur)) div dur + 1"
    proof -
      have "(we - s) div dur = ((we - (s + dur)) + dur) div dur"
        by (simp add: algebra_simps)
      also have "\<dots> = (we - (s + dur)) div dur + 1"
        by (rule div_add_self2) (use "1.prems" in simp)
      finally show ?thesis .
    qed
    have nn: "0 \<le> (we - (s + dur)) div dur"
      using True "1.prems" by (simp add: pos_imp_zdiv_nonneg_iff)
    define m where "m = nat ((we - (s + dur)) div dur)"
    have n: "nat ((we - s) div dur) = Suc m"
      using d nn by (simp add: m_def nat_add_distrib)
    have "tile dur s we = (s, s + dur) # tile dur (s + dur) we"
      using True "1.prems" by (simp add: tile.simps [of dur s we])
    also have "tile dur (s + dur) we =
        map (\<lambda>k. (s + dur + int k * dur, s + dur + (int k + 1) * dur)) [0..<m]"
      using "1.IH" True "1.prems" by (simp add: m_def)
    also have "\<dots> = map (\<lambda>k. (s + int k * dur, s + (int k + 1) * dur)) (map Suc [0..<m])"
      by (simp add: algebra_simps)
    finally have "tile dur s we =
        map (\<lambda>k. (s + int k * dur, s + (int k + 1) * dur)) (0 # map Suc [0..<m])"
      by simp
    also have "0 # map Suc [0..<m] = [0..<Suc m]"
      by (simp add: map_Suc_upt upt_conv_Cons)
    finally show ?thesis
      using n by simp
  next
    case False
    then have "we - s < dur" by simp
    then have "(we - s) div dur \<le> (dur - 1) div dur"
      using "1.prems" by (intro zdiv_mono1) simp_all
    also have "(dur - 1) div dur = 0"
      using "1.prems" by (intro div_pos_pos_trivial) simp_all
    finally have "(we - s) div dur \<le> 0" .
    moreover from False have "tile dur s we = []"
      by (simp add: tile.simps [of dur s we])
    ultimately show ?thesis by simp
  qed
qed









lemma find_common_slots_valid:
  assumes "0 < duration_minutes req" and "start_date req \<le> end_date req"
  shows "find_common_slots team_busy req =
     Inr \<lparr> result_slots = map to_slot (concat (map (day_slots team_busy req) (candidate_days req))),
           result_message =
             (if concat (map (day_slots team_busy req) (candidate_days req)) = []
              then no_common_slot_message else []) \<rparr>"
  using assms by (simp add: find_common_slots_def Let_def)





lemma day_slots_closed_form:
  assumes "0 < duration_minutes req"
  shows "day_slots team_busy req d =
     concat (map (\<lambda>w. map (\<lambda>k. (fst w + int k * duration_minutes req,
                                 fst w + (int k + 1) * duration_minutes req))
                         [0..<nat ((snd w - fst w) div duration_minutes req)])
                 (day_windows team_busy req d))"
  using assms by (simp add: day_slots_def tile_closed_form)

lemma example_windows:
  "day_windows [(m, [(d * 1440 + 540, d * 1440 + 600), (d * 1440 + 660, d * 1440 + 1020)])]
     (default_request t d d 30) d = [(d * 1440 + 600, d * 1440 + 660)]"
  by (simp add: day_windows_def common_windows_def members_def busy_of_def member_free_def
      clipped_busy_def clip_def day_window_def default_request_def events_def Let_def)

lemma example_tile:
  "tile 30 (d * 1440 + 600) (d * 1440 + 660) = [(d * 1440 + 600, d * 1440 + 630), (d * 1440 + 630, d * 1440 + 660)]"
  by (simp add: tile_closed_form numeral_2_eq_2)

lemma day_slots_closed_form_fun:
  assumes "0 < duration_minutes req"
  shows "day_slots team_busy req =
     (\<lambda>d. concat (map (\<lambda>w. map (\<lambda>k. (fst w + int k * duration_minutes req,
                                      fst w + (int k + 1) * duration_minutes req))
                              [0..<nat ((snd w - fst w) div duration_minutes req)])
                      (day_windows team_busy req d)))"
  by (rule ext) (rule day_slots_closed_form [OF assms])

lemma example_day_slots:
  "day_slots [(m, [(d * 1440 + 540, d * 1440 + 600), (d * 1440 + 660, d * 1440 + 1020)])]
     (default_request t d d 30) d
   = [(d * 1440 + 600, d * 1440 + 630), (d * 1440 + 630, d * 1440 + 660)]"
  unfolding day_slots_def example_windows
  by (simp add: default_request_def example_tile)

lemma single_candidate_day:
  "candidate_days (default_request t d d dur) = (if WeekDay d \<in> {1, 2, 3, 4, 5} then [d] else [])"
  by (simp add: candidate_days_def default_request_def)

text \<open>
  C3.  Greedy tiling.  For a valid request the slots of the result are, day by day and
  window by window, the intervals \<open>[ws + k * duration, ws + (k + 1) * duration)\<close> for
  \<open>k = 0, 1, ...\<close> below \<open>(we - ws) div duration\<close>, where \<open>[ws, we)\<close> is the all-free
  window: they start at the window start, each has the length \<open>duration_minutes\<close>, each
  starts where the one before ends, and they go on while the slot end is at most the
  window end.  The example: on a single working day, with the default hours 9 to 17
  (minutes 540 to 1020 of the day), one member busy from 9:00 to 10:00 and from 11:00 to
  17:00, and a duration of 30, the result is the two slots from 10:00 to 10:30 and from
  10:30 to 11:00 (minutes 600, 630, 660), and no message.
\<close>

theorem greedy_tiling:
  "(0 < duration_minutes req \<and> start_date req \<le> end_date req \<longrightarrow>
      (\<exists>r. find_common_slots team_busy req = Inr r \<and>
           result_slots r =
             map to_slot (concat (map (\<lambda>d.
               concat (map (\<lambda>w. map (\<lambda>k. (fst w + int k * duration_minutes req,
                                           fst w + (int k + 1) * duration_minutes req))
                                   [0..<nat ((snd w - fst w) div duration_minutes req)])
                           (day_windows team_busy req d)))
               (candidate_days req)))))
   \<and> (WeekDay day \<in> {1, 2, 3, 4, 5} \<longrightarrow>
        find_common_slots
          [(m, [(day * 1440 + 540, day * 1440 + 600),
                (day * 1440 + 660, day * 1440 + 1020)])]
          (default_request t day day 30)
        = Inr \<lparr> result_slots =
                  map to_slot [(day * 1440 + 600, day * 1440 + 630),
                               (day * 1440 + 630, day * 1440 + 660)],
                result_message = [] \<rparr>)"
proof (intro conjI impI)
  assume v: "0 < duration_minutes req \<and> start_date req \<le> end_date req"
  then have c: "0 < duration_minutes req" and o: "start_date req \<le> end_date req"
    by simp_all
  show "\<exists>r. find_common_slots team_busy req = Inr r \<and>
           result_slots r =
             map to_slot (concat (map (\<lambda>d.
               concat (map (\<lambda>w. map (\<lambda>k. (fst w + int k * duration_minutes req,
                                           fst w + (int k + 1) * duration_minutes req))
                                   [0..<nat ((snd w - fst w) div duration_minutes req)])
                           (day_windows team_busy req d)))
               (candidate_days req)))"
    unfolding find_common_slots_valid [OF c o]
    by (simp add: day_slots_closed_form_fun [OF c])
next
  assume wd: "WeekDay day \<in> {1, 2, 3, 4, 5}"
  have "0 < duration_minutes (default_request t day day 30)"
    "start_date (default_request t day day 30) \<le> end_date (default_request t day day 30)"
    by (simp_all add: default_request_def)
  note v = find_common_slots_valid [OF this]
  have cd: "candidate_days (default_request t day day 30) = [day]"
    by (simp only: single_candidate_day wd if_True)
  show "find_common_slots
          [(m, [(day * 1440 + 540, day * 1440 + 600),
                (day * 1440 + 660, day * 1440 + 1020)])]
          (default_request t day day 30)
        = Inr \<lparr> result_slots =
                  map to_slot [(day * 1440 + 600, day * 1440 + 630),
                               (day * 1440 + 630, day * 1440 + 660)],
                result_message = [] \<rparr>"
    unfolding v cd by (simp add: example_day_slots)
qed

text \<open>The example on Monday 2025-03-03 (day 20150), with the display strings.\<close>

theorem greedy_tiling_witness:
  "find_common_slots
     [(''member'', [(20150 * 1440 + 540, 20150 * 1440 + 600),
                    (20150 * 1440 + 660, 20150 * 1440 + 1020)])]
     (default_request ''team'' 20150 20150 30)
   = Inr \<lparr> result_slots =
             [\<lparr> found_start = 29016600, found_end = 29016630,
                found_display = ''Mon, Mar 3 '' @ [CHR 0xC2, CHR 0xB7] @ '' 10:00'' @
                                [CHR 0xE2, CHR 0x80, CHR 0x93] @ ''10:30 AM'' \<rparr>,
              \<lparr> found_start = 29016630, found_end = 29016660,
                found_display = ''Mon, Mar 3 '' @ [CHR 0xC2, CHR 0xB7] @ '' 10:30'' @
                                [CHR 0xE2, CHR 0x80, CHR 0x93] @ ''11:00 AM'' \<rparr>],
           result_message = [] \<rparr>"
proof -
  have a: "to_slot (20150 * 1440 + 600, 20150 * 1440 + 630) =
      \<lparr> found_start = 29016600, found_end = 29016630,
        found_display = ''Mon, Mar 3 '' @ [CHR 0xC2, CHR 0xB7] @ '' 10:00'' @
                        [CHR 0xE2, CHR 0x80, CHR 0x93] @ ''10:30 AM'' \<rparr>"
    by code_simp
  have b: "to_slot (20150 * 1440 + 630, 20150 * 1440 + 660) =
      \<lparr> found_start = 29016630, found_end = 29016660,
        found_display = ''Mon, Mar 3 '' @ [CHR 0xC2, CHR 0xB7] @ '' 10:30'' @
                        [CHR 0xE2, CHR 0x80, CHR 0x93] @ ''11:00 AM'' \<rparr>"
    by code_simp
  have w: "WeekDay 20150 \<in> {1, 2, 3, 4, 5}"
    by (simp add: WeekDay_def)
  have v: "0 < duration_minutes (default_request ''team'' 20150 20150 30)
      \<and> start_date (default_request ''team'' 20150 20150 30)
        \<le> end_date (default_request ''team'' 20150 20150 30)"
    by (simp add: default_request_def)
  from greedy_tiling
    [where req = "default_request ''team'' 20150 20150 30"
       and team_busy = "[(''member'', [(20150 * 1440 + 540, 20150 * 1440 + 600),
                                       (20150 * 1440 + 660, 20150 * 1440 + 1020)])]"
       and day = 20150 and m = "''member''" and t = "''team''"] w v
  have "find_common_slots
     [(''member'', [(20150 * 1440 + 540, 20150 * 1440 + 600),
                    (20150 * 1440 + 660, 20150 * 1440 + 1020)])]
     (default_request ''team'' 20150 20150 30)
   = Inr \<lparr> result_slots = map to_slot [(20150 * 1440 + 600, 20150 * 1440 + 630),
                                        (20150 * 1440 + 630, 20150 * 1440 + 660)],
           result_message = [] \<rparr>"
    by blast
  then show ?thesis
    by (simp only: list.map a b)
qed

section \<open>Properties of \<open>getWeekRange\<close>\<close>

text \<open>The columns of the view are the weekdays 1 to 5, the default days of a request.\<close>

lemma DAYS_Monday_to_Friday:
  "DAYS = map weekday_name [1, 2, 3, 4, 5]
   \<and> days_included (default_request tid sd ed dur) = set [1, 2, 3, 4, 5]"
  by (simp add: DAYS_def weekday_name_def default_request_def)

text \<open>
  \<open>getWeekRange\<close> builds its two dates in local time (\<open>new Date(y, m, d)\<close>, \<open>setHours\<close>,
  \<open>setDate\<close>) and prints them in UTC (\<open>toISOString\<close>).  The lemmas below follow the
  code through: the two time values are the local midnights of the Monday of the
  current week and of the day four days later, whatever the zone; the UTC date of a
  local midnight is that day where the zone is at or behind UTC then, and the day
  before where it is ahead of UTC.
\<close>

lemma div_unique_int:
  fixes a d k :: int
  assumes "0 < k" and "d * k \<le> a" and "a < (d + 1) * k"
  shows "a div k = d"
proof -
  define r where "r = a - d * k"
  have r: "0 \<le> r" "r < k"
    using assms by (simp_all add: r_def algebra_simps)
  have "a = r + d * k"
    by (simp add: r_def)
  then have "a div k = (r + d * k) div k"
    by simp
  also have "\<dots> = d + r div k"
    by (rule div_mult_self1) (use assms in simp)
  also have "r div k = 0"
    using r by (simp add: div_pos_pos_trivial)
  finally show ?thesis
    by simp
qed

lemma month_of_range: "0 \<le> month_of leap dwy \<and> month_of leap dwy < 12"
  by (simp add: month_of_def Let_def)

lemma MakeDay_of_day: "MakeDay (YearFromDay d) (MonthFromDay d) (DateFromDay d + k) = d + k"
proof -
  have r: "0 \<le> MonthFromDay d" "MonthFromDay d < 12"
    using month_of_range by (simp_all add: MonthFromDay_def)
  then have "MonthFromDay d div 12 = 0" "MonthFromDay d mod 12 = MonthFromDay d"
    by (simp_all add: div_pos_pos_trivial mod_pos_pos_trivial)
  then show ?thesis
    by (simp add: MakeDay_def DateFromDay_def DayWithinYear_def)
qed

lemma Day_midnight: "Day (m * msPerDay) = m"
  by (simp add: Day_def msPerDay_def)

lemma TimeWithinDay_midnight: "TimeWithinDay (m * msPerDay) = 0"
  by (simp add: TimeWithinDay_def msPerDay_def)

lemma LocalTime_UTC_fixed: "LocalTime (fixed_zone k) (UTC (fixed_zone k) l) = l"
  by (simp add: LocalTime_def UTC_def fixed_zone_def)

lemma getWeekRange_midnights:
  assumes y: "100 \<le> getFullYear z now"
    and m: "m = week_monday (Day (LocalTime z now))"
    and rt: "LocalTime z (UTC z (m * msPerDay)) = m * msPerDay"
  shows "getWeekRange z now =
     (take 10 (toISOString (UTC z (m * msPerDay))),
      take 10 (toISOString (UTC z ((m + 4) * msPerDay))))"
proof -
  define d where "d = Day (LocalTime z now)"
  have md: "m = d - WeekDay d + (if WeekDay d = 0 then - 6 else 1)"
    by (simp add: m d_def week_monday_def)
  have diff: "DateFromDay d - WeekDay d + (if WeekDay d = 0 then - 6 else 1)
      = DateFromDay d + (m - d)"
    by (simp add: md)
  have "full_year (YearFromDay d) = YearFromDay d"
    using y by (simp add: full_year_def getFullYear_def d_def)
  then have monday: "new_Date z (YearFromDay d) (MonthFromDay d)
      (DateFromDay d - WeekDay d + (if WeekDay d = 0 then - 6 else 1)) = UTC z (m * msPerDay)"
    unfolding diff new_Date_def by (simp add: MakeDay_of_day)
  have zero: "setHours_zero z (UTC z (m * msPerDay)) = UTC z (m * msPerDay)"
    by (simp add: setHours_zero_def rt Day_midnight)
  have friday: "setDate z (UTC z (m * msPerDay)) (getDate z (UTC z (m * msPerDay)) + 4)
      = UTC z ((m + 4) * msPerDay)"
    by (simp add: setDate_def getDate_def rt Day_midnight TimeWithinDay_midnight
        MakeDay_of_day Let_def)
  show ?thesis
    unfolding getWeekRange_def getDay_def getDate_def [of z now] getFullYear_def getMonth_def
      d_def [symmetric] Let_def monday zero friday ..
qed

lemma length_dec: "length (dec w k) = w"
  by (induction w arbitrary: k) simp_all

lemma length_iso_date: "10 \<le> length (iso_date d)"
  by (simp add: iso_date_def iso_year_def length_dec)

lemma length_iso_date_four_digit_year:
  "0 \<le> YearFromDay d \<Longrightarrow> YearFromDay d \<le> 9999 \<Longrightarrow> length (iso_date d) = 10"
  by (simp add: iso_date_def iso_year_def length_dec)

lemma take_10_toISOString: "take 10 (toISOString t) = take 10 (iso_date (Day t))"
  using length_iso_date [of "Day t"] by (simp add: toISOString_def)

lemma Day_UTC_behind:
  assumes "- 1440 < offset_of_local z (m * msPerDay)"
    and "offset_of_local z (m * msPerDay) \<le> 0"
  shows "Day (UTC z (m * msPerDay)) = m"
  unfolding Day_def UTC_def
  by (rule div_unique_int) (use assms in \<open>simp_all add: msPerDay_def\<close>)

lemma Day_UTC_ahead:
  assumes "0 < offset_of_local z (m * msPerDay)"
    and "offset_of_local z (m * msPerDay) \<le> 1440"
  shows "Day (UTC z (m * msPerDay)) = m - 1"
  unfolding Day_def UTC_def
  by (rule div_unique_int) (use assms in \<open>simp_all add: msPerDay_def\<close>)

lemma monday_of_week: "WeekDay (week_monday d) = 1 \<and> week_monday d \<le> d \<and> d \<le> week_monday d + 6"
proof -
  define m where "m = d - WeekDay d + (if WeekDay d = 0 then - 6 else 1)"
  define q where "q = (d + 4) div 7"
  define w where "w = (d + 4) mod 7"
  have w: "0 \<le> w" "w < 7"
    by (simp_all add: w_def)
  have "d + 4 = 7 * q + w"
    by (simp add: q_def w_def)
  then have d: "d = 7 * q + w - 4"
    by simp
  have wd: "WeekDay d = w"
    by (simp add: WeekDay_def w_def)
  have one: "WeekDay (7 * k + 1 - 4) = 1" for k :: int
    by (simp add: WeekDay_def)
  have "WeekDay m = 1 \<and> m \<le> d \<and> d \<le> m + 6"
  proof (cases "w = 0")
    case True
    then have "m = 7 * (q - 1) + 1 - 4"
      unfolding m_def wd using d by simp
    with one [of "q - 1"] True d show ?thesis
      by simp
  next
    case False
    then have "m = 7 * q + 1 - 4"
      unfolding m_def wd using d by simp
    with one [of q] False w d show ?thesis
      by simp
  qed
  then show ?thesis
    by (simp add: week_monday_def m_def)
qed

text \<open>Where the zone is at or behind UTC at both local midnights, the range is the
  Monday and the Friday of the current week.\<close>

lemma getWeekRange_at_or_behind_UTC:
  assumes y: "100 \<le> getFullYear z now"
    and m: "m = week_monday (Day (LocalTime z now))"
    and rt: "LocalTime z (UTC z (m * msPerDay)) = m * msPerDay"
    and mo: "- 1440 < offset_of_local z (m * msPerDay)" "offset_of_local z (m * msPerDay) \<le> 0"
    and fr: "- 1440 < offset_of_local z ((m + 4) * msPerDay)"
      "offset_of_local z ((m + 4) * msPerDay) \<le> 0"
  shows "WeekDay m = 1 \<and> m \<le> Day (LocalTime z now) \<and> Day (LocalTime z now) \<le> m + 6
       \<and> getWeekRange z now = (take 10 (iso_date m), take 10 (iso_date (m + 4)))"
proof -
  have "getWeekRange z now = (take 10 (iso_date m), take 10 (iso_date (m + 4)))"
    unfolding getWeekRange_midnights [OF y m rt] take_10_toISOString
      Day_UTC_behind [OF mo] Day_UTC_behind [OF fr] ..
  with monday_of_week [of "Day (LocalTime z now)"] show ?thesis
    by (simp add: m)
qed

text \<open>Where the zone is ahead of UTC at both local midnights, the range is the Sunday
  before the current week and the Thursday of the week.\<close>

lemma getWeekRange_ahead_of_UTC:
  assumes y: "100 \<le> getFullYear z now"
    and m: "m = week_monday (Day (LocalTime z now))"
    and rt: "LocalTime z (UTC z (m * msPerDay)) = m * msPerDay"
    and mo: "0 < offset_of_local z (m * msPerDay)" "offset_of_local z (m * msPerDay) \<le> 1440"
    and fr: "0 < offset_of_local z ((m + 4) * msPerDay)"
      "offset_of_local z ((m + 4) * msPerDay) \<le> 1440"
  shows "WeekDay m = 1 \<and> m \<le> Day (LocalTime z now) \<and> Day (LocalTime z now) \<le> m + 6
       \<and> getWeekRange z now = (take 10 (iso_date (m - 1)), take 10 (iso_date (m + 3)))"
proof -
  have e: "m + 4 - 1 = m + 3"
    by simp
  have "getWeekRange z now = (take 10 (iso_date (m - 1)), take 10 (iso_date (m + 3)))"
    unfolding getWeekRange_midnights [OF y m rt] take_10_toISOString
      Day_UTC_ahead [OF mo] Day_UTC_ahead [OF fr] e ..
  with monday_of_week [of "Day (LocalTime z now)"] show ?thesis
    by (simp add: m)
qed

text \<open>A zone with one offset: every user at or west of Greenwich gets Monday to Friday,
  every user east of it Sunday to Thursday.\<close>

lemma getWeekRange_fixed_zone:
  assumes "100 \<le> getFullYear (fixed_zone k) now"
    and "m = week_monday (Day (LocalTime (fixed_zone k) now))"
  shows "- 1440 < k \<and> k \<le> 0 \<longrightarrow>
           getWeekRange (fixed_zone k) now = (take 10 (iso_date m), take 10 (iso_date (m + 4)))"
    and "0 < k \<and> k \<le> 1440 \<longrightarrow>
           getWeekRange (fixed_zone k) now = (take 10 (iso_date (m - 1)), take 10 (iso_date (m + 3)))"
proof -
  have o: "offset_of_local (fixed_zone k) l = k" for l
    by (simp add: fixed_zone_def)
  show "- 1440 < k \<and> k \<le> 0 \<longrightarrow>
           getWeekRange (fixed_zone k) now = (take 10 (iso_date m), take 10 (iso_date (m + 4)))"
    using getWeekRange_at_or_behind_UTC [OF assms LocalTime_UTC_fixed] by (simp add: o)
  show "0 < k \<and> k \<le> 1440 \<longrightarrow>
           getWeekRange (fixed_zone k) now = (take 10 (iso_date (m - 1)), take 10 (iso_date (m + 3)))"
    using getWeekRange_ahead_of_UTC [OF assms LocalTime_UTC_fixed] by (simp add: o)
qed

text \<open>
  C7 at a concrete clock.  In a zone one hour ahead of UTC, at noon local time on
  Wednesday 2026-02-11 (11:00 UTC, time value 1770807600000), the Monday of the week is
  2026-02-09 and its Friday 2026-02-13; \<open>getWeekRange\<close> returns Sunday 2026-02-08 and
  Thursday 2026-02-12.
\<close>

theorem getWeekRange_sunday_to_thursday:
  "getWeekRange (fixed_zone 60) 1770807600000 = (''2026-02-08'', ''2026-02-12'')
   \<and> iso_date (Day (LocalTime (fixed_zone 60) 1770807600000)) = ''2026-02-11''
   \<and> WeekDay (Day (LocalTime (fixed_zone 60) 1770807600000)) = 3
   \<and> iso_date 20493 = ''2026-02-09'' \<and> WeekDay 20493 = 1
   \<and> iso_date 20492 = ''2026-02-08'' \<and> WeekDay 20492 = 0
   \<and> iso_date 20496 = ''2026-02-12'' \<and> WeekDay 20496 = 4"
  by code_simp

text \<open>The same instant read in a browser on UTC gives the Monday and the Friday.\<close>

lemma getWeekRange_at_UTC:
  "getWeekRange (fixed_zone 0) 1770811200000 = (''2026-02-09'', ''2026-02-13'')"
  by code_simp

text \<open>In London on Sunday 2026-10-25 at noon, after the clocks have gone back, the
  Monday of the week (2026-10-19) still lay in summer time: the range is Sunday
  2026-10-18 to Thursday 2026-10-22.\<close>

lemma getWeekRange_london_clock_change:
  "getWeekRange london_autumn_2026 1792929600000 = (''2026-10-18'', ''2026-10-22'')"
  by code_simp

section \<open>The resolver and the client together\<close>




text \<open>
  C2.  A request whose duration is zero or negative, and a request whose end date is
  before its start date, fail in the resolver with \<open>InvalidRequest\<close>, a value that
  carries no slots.  The client checks neither: for every duration \<open>d\<close> and every pair of
  date strings \<open>findAvailability\<close> sends them as they are, and its outcome is what the
  request gives: what \<open>res.json()\<close> gives for an ok response, and the error
  \<open>Failed to find availability\<close> for every response that is not ok.
\<close>

theorem invalid_request_rejected:
  fixes fetch :: "http_request \<Rightarrow> thrown + availability_result http_response"
  shows
  "(duration_minutes req \<le> 0 \<longrightarrow> find_common_slots team_busy req = Inl InvalidRequest)
   \<and> (end_date req < start_date req \<longrightarrow> find_common_slots team_busy req = Inl InvalidRequest)
   \<and> body (findAvailability_request e teamId startDate endDate (Some d)) =
       Some (JObj [(''start_date'', JStr startDate), (''end_date'', JStr endDate),
                   (''duration_minutes'', JNum d)])
   \<and> findAvailability fetch e teamId startDate endDate (Some d) =
       (case fetch (findAvailability_request e teamId startDate endDate (Some d)) of
          Inl rejection \<Rightarrow> Inl rejection
        | Inr res \<Rightarrow> if ok res then json res else Inl (Error ''Failed to find availability''))
   \<and> (fetch (findAvailability_request e teamId startDate endDate (Some d)) = Inr res
        \<and> \<not> ok res \<longrightarrow>
      findAvailability fetch e teamId startDate endDate (Some d) =
        Inl (Error ''Failed to find availability''))"
  by (simp add: find_common_slots_def findAvailability_request_def findAvailability_outcome
      default_duration_def)

theorem invalid_request_rejected_witness:
  "find_common_slots [] (default_request ''team'' 20150 20151 0) = Inl InvalidRequest
   \<and> find_common_slots [] (default_request ''team'' 20150 20151 (- 15)) = Inl InvalidRequest
   \<and> find_common_slots [] (default_request ''team'' 20151 20150 30) = Inl InvalidRequest
   \<and> findAvailability
       (\<lambda>rq. Inr \<lparr> ok = False, json = Inr (Some \<lparr> slots = None, message = None \<rparr>) \<rparr>)
       \<lparr> NEXT_PUBLIC_API_URL = None, window_defined = False, localStorage = Map.empty \<rparr>
       ''team'' ''2025-03-04'' ''2025-03-03'' (Some (- 15))
     = Inl (Error ''Failed to find availability'')"
  using
    invalid_request_rejected [where req = "default_request ''team'' 20150 20151 0" and team_busy = "[]"]
    invalid_request_rejected [where req = "default_request ''team'' 20150 20151 (- 15)" and team_busy = "[]"]
    invalid_request_rejected [where req = "default_request ''team'' 20151 20150 30" and team_busy = "[]"
      and fetch = "\<lambda>rq. Inr \<lparr> ok = False, json = Inr (Some \<lparr> slots = None, message = None \<rparr>) \<rparr>"
      and e = "\<lparr> NEXT_PUBLIC_API_URL = None, window_defined = False, localStorage = Map.empty \<rparr>"
      and teamId = "''team''" and startDate = "''2025-03-04''" and endDate = "''2025-03-03''"
      and d = "- 15"
      and res = "\<lparr> ok = False, json = Inr (Some \<lparr> slots = None, message = None \<rparr>) \<rparr>"]
  by (simp add: default_request_def)






end
